theory Spec2Isabelle
  imports Main "HOL-Library.Finite_Map"
begin

unbundle bit_operations_syntax

section \<open>The search engine's data (src/ai/advanced_ai.py)\<close>

text \<open>
  The lightweight move of the search engine (\<^verbatim>\<open>class Move(NamedTuple)\<close>): coordinates
  are Python integers, the piece tags are two-character strings, and the empty string
  stands for "no capture" and "no special flag".
\<close>

record Move =
  from_row :: int
  from_col :: int
  to_row :: int
  to_col :: int
  piece :: string
  captured :: string
  special_flag :: string

record TranspositionEntry =
  score :: int
  depth :: int
  flag :: int
  best_move :: "Move option"
  age :: int

definition EXACT :: int where "EXACT = 0"
definition LOWER_BOUND :: int where "LOWER_BOUND = 1"
definition UPPER_BOUND :: int where "UPPER_BOUND = 2"

subsection \<open>TranspositionTable\<close>

text \<open>
  The table is a Python dict from position keys to entries: a finite map. The field
  \<^verbatim>\<open>size\<close> of the source is called \<open>tt_size\<close> here.
\<close>

record TranspositionTable =
  tt_size :: int
  table :: "(int, TranspositionEntry) fmap"
  generation :: int
  hits :: int
  misses :: int

definition TranspositionTable_init :: "int \<Rightarrow> TranspositionTable" where
  "TranspositionTable_init size_mb =
     \<lparr>tt_size = (size_mb * 1024 * 1024) div 32, table = fmempty,
      generation = 0, hits = 0, misses = 0\<rparr>"

definition clear :: "TranspositionTable \<Rightarrow> TranspositionTable" where
  "clear t = t\<lparr>table := fmempty, generation := 0, hits := 0, misses := 0\<rparr>"

definition new_search :: "TranspositionTable \<Rightarrow> TranspositionTable" where
  "new_search t = t\<lparr>generation := generation t + 1\<rparr>"

text \<open>\<^verbatim>\<open>len(self.table)\<close>: the number of keys of the dict.\<close>

definition len_table :: "TranspositionTable \<Rightarrow> int" where
  "len_table t = int (fcard (fmdom (table t)))"

definition store ::
  "TranspositionTable \<Rightarrow> int \<Rightarrow> int \<Rightarrow> int \<Rightarrow> int \<Rightarrow> Move option \<Rightarrow> TranspositionTable" where
  "store t key d sc fl bm =
     (case fmlookup (table t) key of
        Some old_entry \<Rightarrow>
          if d \<ge> depth old_entry \<or> \<bar>generation t - age old_entry\<bar> > 2
          then t\<lparr>table := fmupd key
                  \<lparr>score = sc, depth = d, flag = fl, best_move = bm, age = generation t\<rparr>
                  (table t)\<rparr>
          else t
      | None \<Rightarrow>
          if len_table t < tt_size t
          then t\<lparr>table := fmupd key
                  \<lparr>score = sc, depth = d, flag = fl, best_move = bm, age = generation t\<rparr>
                  (table t)\<rparr>
          else t)"

text \<open>\<^verbatim>\<open>probe\<close> returns the pair (score or None, move or None) and the table with its
  hit and miss counters updated.\<close>

definition probe ::
  "TranspositionTable \<Rightarrow> int \<Rightarrow> int \<Rightarrow> int \<Rightarrow> int
     \<Rightarrow> (int option \<times> Move option) \<times> TranspositionTable" where
  "probe t key d alpha beta =
     (case fmlookup (table t) key of
        None \<Rightarrow> ((None, None), t\<lparr>misses := misses t + 1\<rparr>)
      | Some entry \<Rightarrow>
          (let t' = t\<lparr>hits := hits t + 1\<rparr> in
           if depth entry \<ge> d then
             (if flag entry = EXACT then ((Some (score entry), best_move entry), t')
              else if flag entry = LOWER_BOUND \<and> score entry \<ge> beta
                then ((Some (score entry), best_move entry), t')
              else if flag entry = UPPER_BOUND \<and> score entry \<le> alpha
                then ((Some (score entry), best_move entry), t')
              else ((None, best_move entry), t'))
           else ((None, best_move entry), t')))"

text \<open>
  The states a table constructed with \<open>size_mb\<close> can be in: the constructor's result,
  closed under the four operations of the class.
\<close>

inductive tt_reachable :: "int \<Rightarrow> TranspositionTable \<Rightarrow> bool" for size_mb :: int where
  tt_init: "tt_reachable size_mb (TranspositionTable_init size_mb)"
| tt_store: "tt_reachable size_mb t \<Longrightarrow> tt_reachable size_mb (store t key d sc fl bm)"
| tt_probe: "tt_reachable size_mb t \<Longrightarrow> tt_reachable size_mb (snd (probe t key d alpha beta))"
| tt_new_search: "tt_reachable size_mb t \<Longrightarrow> tt_reachable size_mb (new_search t)"
| tt_clear: "tt_reachable size_mb t \<Longrightarrow> tt_reachable size_mb (clear t)"

text \<open>No stored entry is younger than the table's generation counter.\<close>

definition ages_ok :: "TranspositionTable \<Rightarrow> bool" where
  "ages_ok t \<longleftrightarrow> (\<forall>k e. fmlookup (table t) k = Some e \<longrightarrow> age e \<le> generation t)"

subsection \<open>Boards\<close>

text \<open>
  A board is a list of eight rows of eight two-character tags (\<^verbatim>\<open>"wp"\<close>,
  \<^verbatim>\<open>"bK"\<close>, \<^verbatim>\<open>"--"\<close>). \<open>sq board r c\<close> is \<^verbatim>\<open>board[r][c]\<close> for indices inside the
  grid; every read below is under the source's own \<^verbatim>\<open>range(8)\<close> loop or
  \<^verbatim>\<open>is_valid_square\<close> guard.
\<close>

type_synonym board = "string list list"

definition sq :: "board \<Rightarrow> int \<Rightarrow> int \<Rightarrow> string" where
  "sq board r c = board ! nat r ! nat c"

definition range8 :: "int list" where
  "range8 = [0, 1, 2, 3, 4, 5, 6, 7]"

text \<open>\<^verbatim>\<open>str.lower()\<close> on one ASCII character.\<close>

definition lower :: "char \<Rightarrow> char" where
  "lower ch =
    (if ch = CHR ''A'' then CHR ''a'' else if ch = CHR ''B'' then CHR ''b''
     else if ch = CHR ''C'' then CHR ''c'' else if ch = CHR ''D'' then CHR ''d''
     else if ch = CHR ''E'' then CHR ''e'' else if ch = CHR ''F'' then CHR ''f''
     else if ch = CHR ''G'' then CHR ''g'' else if ch = CHR ''H'' then CHR ''h''
     else if ch = CHR ''I'' then CHR ''i'' else if ch = CHR ''J'' then CHR ''j''
     else if ch = CHR ''K'' then CHR ''k'' else if ch = CHR ''L'' then CHR ''l''
     else if ch = CHR ''M'' then CHR ''m'' else if ch = CHR ''N'' then CHR ''n''
     else if ch = CHR ''O'' then CHR ''o'' else if ch = CHR ''P'' then CHR ''p''
     else if ch = CHR ''Q'' then CHR ''q'' else if ch = CHR ''R'' then CHR ''r''
     else if ch = CHR ''S'' then CHR ''s'' else if ch = CHR ''T'' then CHR ''t''
     else if ch = CHR ''U'' then CHR ''u'' else if ch = CHR ''V'' then CHR ''v''
     else if ch = CHR ''W'' then CHR ''w'' else if ch = CHR ''X'' then CHR ''x''
     else if ch = CHR ''Y'' then CHR ''y'' else if ch = CHR ''Z'' then CHR ''z''
     else ch)"

subsection \<open>MoveGenerator\<close>

datatype MoveType = MoveType_ALL | MoveType_CAPTURES | MoveType_QUIET

definition is_valid_square :: "int \<Rightarrow> int \<Rightarrow> bool" where
  "is_valid_square row col \<longleftrightarrow> 0 \<le> row \<and> row < 8 \<and> 0 \<le> col \<and> col < 8"

text \<open>The constructor \<^verbatim>\<open>Move(r, c, r', c', piece=..., captured=...)\<close> with its defaults.\<close>

definition mk_move :: "int \<Rightarrow> int \<Rightarrow> int \<Rightarrow> int \<Rightarrow> string \<Rightarrow> string \<Rightarrow> Move" where
  "mk_move r c r' c' p cap =
     \<lparr>from_row = r, from_col = c, to_row = r', to_col = c',
      piece = p, captured = cap, special_flag = []\<rparr>"

definition pawn_capture :: "board \<Rightarrow> int \<Rightarrow> int \<Rightarrow> char \<Rightarrow> int \<Rightarrow> int \<Rightarrow> Move list" where
  "pawn_capture board row col color direction dc =
     (let new_row = row + direction; new_col = col + dc in
      if is_valid_square new_row new_col \<and> sq board new_row new_col \<noteq> ''--''
         \<and> sq board new_row new_col ! 0 \<noteq> color
      then [mk_move row col new_row new_col [color, CHR ''p''] (sq board new_row new_col)]
      else [])"

definition get_pawn_moves :: "board \<Rightarrow> int \<Rightarrow> int \<Rightarrow> char \<Rightarrow> MoveType \<Rightarrow> Move list" where
  "get_pawn_moves board row col color move_type =
     (let direction = (if color = CHR ''w'' then -1 else 1);
          start_row = (if color = CHR ''w'' then 6 else 1);
          forward =
            (if move_type = MoveType_ALL \<or> move_type = MoveType_QUIET then
               (let new_row = row + direction in
                if is_valid_square new_row col \<and> sq board new_row col = ''--''
                then mk_move row col new_row col [color, CHR ''p''] []
                     # (if row = start_row \<and> sq board (new_row + direction) col = ''--''
                        then [mk_move row col (new_row + direction) col [color, CHR ''p''] []]
                        else [])
                else [])
             else []);
          captures =
            (if move_type = MoveType_ALL \<or> move_type = MoveType_CAPTURES then
               pawn_capture board row col color direction (-1)
               @ pawn_capture board row col color direction 1
             else [])
      in forward @ captures)"

text \<open>
  One ray of a sliding piece: the loop \<^verbatim>\<open>for i in range(1, 8)\<close> with its three
  \<^verbatim>\<open>break\<close>s, as a recursion over the remaining values of \<open>i\<close>.
\<close>

fun slide_ray ::
  "board \<Rightarrow> int \<Rightarrow> int \<Rightarrow> char \<Rightarrow> string \<Rightarrow> MoveType \<Rightarrow> int \<Rightarrow> int \<Rightarrow> int list \<Rightarrow> Move list" where
  "slide_ray board row col color p move_type dr dc [] = []"
| "slide_ray board row col color p move_type dr dc (i # rest) =
     (let new_row = row + i * dr; new_col = col + i * dc in
      if \<not> is_valid_square new_row new_col then []
      else
        (let target = sq board new_row new_col in
         if target = ''--'' then
           (if move_type = MoveType_ALL \<or> move_type = MoveType_QUIET
            then [mk_move row col new_row new_col p []] else [])
           @ slide_ray board row col color p move_type dr dc rest
         else if target ! 0 \<noteq> color then
           (if move_type = MoveType_ALL \<or> move_type = MoveType_CAPTURES
            then [mk_move row col new_row new_col p target] else [])
         else []))"

definition get_sliding_moves ::
  "board \<Rightarrow> int \<Rightarrow> int \<Rightarrow> char \<Rightarrow> (int \<times> int) list \<Rightarrow> MoveType \<Rightarrow> Move list" where
  "get_sliding_moves board row col color directions move_type =
     concat (map (\<lambda>(dr, dc).
       slide_ray board row col color (sq board row col) move_type dr dc [1, 2, 3, 4, 5, 6, 7])
       directions)"

text \<open>One target square of a knight or a king (the body of the loop over the offsets).\<close>

definition step_move :: "board \<Rightarrow> int \<Rightarrow> int \<Rightarrow> char \<Rightarrow> MoveType \<Rightarrow> int \<times> int \<Rightarrow> Move list" where
  "step_move board row col color move_type d =
     (let new_row = row + fst d; new_col = col + snd d in
      if is_valid_square new_row new_col then
        (let target = sq board new_row new_col in
         if target = ''--'' then
           (if move_type = MoveType_ALL \<or> move_type = MoveType_QUIET
            then [mk_move row col new_row new_col (sq board row col) []] else [])
         else if target ! 0 \<noteq> color then
           (if move_type = MoveType_ALL \<or> move_type = MoveType_CAPTURES
            then [mk_move row col new_row new_col (sq board row col) target] else [])
         else [])
      else [])"

definition get_knight_moves :: "board \<Rightarrow> int \<Rightarrow> int \<Rightarrow> char \<Rightarrow> MoveType \<Rightarrow> Move list" where
  "get_knight_moves board row col color move_type =
     concat (map (step_move board row col color move_type)
       [(-2, -1), (-2, 1), (-1, -2), (-1, 2), (1, -2), (1, 2), (2, -1), (2, 1)])"

definition get_king_moves :: "board \<Rightarrow> int \<Rightarrow> int \<Rightarrow> char \<Rightarrow> MoveType \<Rightarrow> Move list" where
  "get_king_moves board row col color move_type =
     concat (map (step_move board row col color move_type)
       [(0, 1), (0, -1), (1, 0), (-1, 0), (1, 1), (1, -1), (-1, 1), (-1, -1)])"

definition get_piece_moves :: "board \<Rightarrow> int \<Rightarrow> int \<Rightarrow> string \<Rightarrow> MoveType \<Rightarrow> Move list" where
  "get_piece_moves board row col p move_type =
     (let piece_type = lower (p ! 1); color = p ! 0 in
      if piece_type = CHR ''p'' then get_pawn_moves board row col color move_type
      else if piece_type = CHR ''r'' then
        get_sliding_moves board row col color [(0, 1), (0, -1), (1, 0), (-1, 0)] move_type
      else if piece_type = CHR ''n'' then get_knight_moves board row col color move_type
      else if piece_type = CHR ''b'' then
        get_sliding_moves board row col color [(1, 1), (1, -1), (-1, 1), (-1, -1)] move_type
      else if piece_type = CHR ''q'' then
        get_sliding_moves board row col color
          [(0, 1), (0, -1), (1, 0), (-1, 0), (1, 1), (1, -1), (-1, 1), (-1, -1)] move_type
      else if piece_type = CHR ''k'' then get_king_moves board row col color move_type
      else [])"

definition square_moves :: "board \<Rightarrow> char \<Rightarrow> MoveType \<Rightarrow> int \<Rightarrow> int \<Rightarrow> Move list" where
  "square_moves board color move_type row col =
     (let p = sq board row col in
      if p \<noteq> ''--'' \<and> p ! 0 = color then get_piece_moves board row col p move_type else [])"

definition generate_moves :: "board \<Rightarrow> bool \<Rightarrow> MoveType \<Rightarrow> Move list" where
  "generate_moves board is_white_turn move_type =
     (let color = (if is_white_turn then CHR ''w'' else CHR ''b'') in
      concat (map (\<lambda>row. concat (map (\<lambda>col. square_moves board color move_type row col) range8))
                  range8))"

text \<open>What every generated capture satisfies.\<close>

definition is_capture_of :: "board \<Rightarrow> char \<Rightarrow> Move \<Rightarrow> bool" where
  "is_capture_of board color m \<longleftrightarrow>
     is_valid_square (to_row m) (to_col m)
     \<and> captured m = sq board (to_row m) (to_col m)
     \<and> captured m \<noteq> ''--''
     \<and> captured m ! 0 \<noteq> color
     \<and> special_flag m = []"

subsection \<open>SearchEngine: the position key\<close>

text \<open>
  \<^verbatim>\<open>_get_position_key\<close> folds Python's built-in \<^verbatim>\<open>hash\<close> of the tuples
  \<^verbatim>\<open>(piece, row, col)\<close> into the key. The built-in is not part of the repository (and is
  salted per process for strings), so it is a parameter \<open>hash\<close>; Python integers are
  unbounded, so the key is an \<open>int\<close> and \<open>XOR\<close>, \<open>AND\<close> are two's-complement.
\<close>

definition get_position_key :: "(string \<times> int \<times> int \<Rightarrow> int) \<Rightarrow> board \<Rightarrow> bool \<Rightarrow> int" where
  "get_position_key hash board is_white_turn =
     (let key = fold (\<lambda>row key.
                  fold (\<lambda>col key.
                    let p = sq board row col in
                    if p \<noteq> ''--'' then key XOR hash (p, row, col) else key) range8 key)
                range8 0;
          key = (if is_white_turn then key XOR 1 else key)
      in key AND 0x7FFFFFFF)"

text \<open>
  The fingerprint in the specification's words: one contribution per occupied square,
  combined by XOR with a one-bit contribution of the side to move.
\<close>

definition occupied_contributions :: "(string \<times> int \<times> int \<Rightarrow> int) \<Rightarrow> board \<Rightarrow> int list" where
  "occupied_contributions hash board =
     concat (map (\<lambda>row. concat (map (\<lambda>col.
       if sq board row col \<noteq> ''--'' then [hash (sq board row col, row, col)] else []) range8)) range8)"

definition xor_all :: "int list \<Rightarrow> int" where
  "xor_all xs = fold (\<lambda>x key. key XOR x) xs 0"

definition combined_fingerprint :: "(string \<times> int \<times> int \<Rightarrow> int) \<Rightarrow> board \<Rightarrow> bool \<Rightarrow> int" where
  "combined_fingerprint hash board is_white_turn =
     xor_all (occupied_contributions hash board) XOR (if is_white_turn then 1 else 0)"

text \<open>A stand-in for Python's hash that, as the built-in does, also sets bits above bit 30.\<close>

definition sample_hash :: "string \<times> int \<times> int \<Rightarrow> int" where
  "sample_hash x = (case x of (p, r, c) \<Rightarrow> 4294967296 * (r * 8 + c + 1))"

subsection \<open>SearchEngine: the end of an \<^verbatim>\<open>_alpha_beta\<close> node\<close>

text \<open>
  The loop \<^verbatim>\<open>for i, move in enumerate(ordered_moves)\<close> of \<^verbatim>\<open>_alpha_beta\<close>, as far
  as \<^verbatim>\<open>best_score\<close> and \<^verbatim>\<open>alpha\<close> go. The list holds, for each move in order, the
  value of \<^verbatim>\<open>score\<close> when the loop body reaches \<^verbatim>\<open>moves_searched += 1\<close>, whatever the
  recursive calls made it; the loop stops at the first \<^verbatim>\<open>alpha >= beta\<close>. The result is
  \<^verbatim>\<open>(best_score, alpha)\<close> after the loop.
\<close>

fun search_moves :: "int list \<Rightarrow> int \<Rightarrow> int \<Rightarrow> int \<Rightarrow> int \<times> int" where
  "search_moves [] best_score alpha beta = (best_score, alpha)"
| "search_moves (sc # rest) best_score alpha beta =
     (let best_score' = (if sc > best_score then sc else best_score);
          alpha' = (if sc > alpha then sc else alpha)
      in if alpha' \<ge> beta then (best_score', alpha')
         else search_moves rest best_score' alpha' beta)"

text \<open>The expression that \<^verbatim>\<open>_alpha_beta\<close> assigns to \<^verbatim>\<open>tt_flag\<close>.\<close>

definition tt_flag :: "int \<Rightarrow> int \<Rightarrow> int" where
  "tt_flag best_score beta =
     (if best_score > -999999 \<and> best_score < beta then EXACT
      else if best_score \<ge> beta then LOWER_BOUND
      else UPPER_BOUND)"

text \<open>
  The part of \<^verbatim>\<open>_alpha_beta\<close> from \<^verbatim>\<open>best_score = -999999\<close> to the end: the loop, the
  flag, the store and the returned score. \<open>alpha\<close> and \<open>beta\<close> are the node's arguments.
\<close>

definition alpha_beta_finish ::
  "TranspositionTable \<Rightarrow> int \<Rightarrow> int \<Rightarrow> int \<Rightarrow> int \<Rightarrow> Move list \<Rightarrow> int list
     \<Rightarrow> TranspositionTable \<times> int" where
  "alpha_beta_finish tt pos_key d alpha beta ordered_moves scores =
     (let best_score = fst (search_moves scores (-999999) alpha beta)
      in (store tt pos_key d best_score (tt_flag best_score beta)
            (case ordered_moves of [] \<Rightarrow> None | m # ms \<Rightarrow> Some m),
          best_score))"

text \<open>The bound in the specification's words, from the node's initial \<open>alpha\<close> and \<open>beta\<close>.\<close>

definition spec_bound :: "int \<Rightarrow> int \<Rightarrow> int \<Rightarrow> int" where
  "spec_bound alpha beta best_score =
     (if alpha < best_score \<and> best_score < beta then EXACT
      else if best_score \<ge> beta then LOWER_BOUND
      else UPPER_BOUND)"

subsection \<open>Concrete boards\<close>

definition empty_row :: "string list" where
  "empty_row = [''--'', ''--'', ''--'', ''--'', ''--'', ''--'', ''--'', ''--'']"

text \<open>A lone white king on a8 (row 0, column 0).\<close>

definition lone_king_board :: board where
  "lone_king_board =
     [[''wK'', ''--'', ''--'', ''--'', ''--'', ''--'', ''--'', ''--''],
      empty_row, empty_row, empty_row, empty_row, empty_row, empty_row, empty_row]"

text \<open>White pawn on a7 (row 1, column 0), black rook on b8 (row 0, column 1), the white
  king on h1 and the black king on h8.\<close>

definition promo_capture_board :: board where
  "promo_capture_board =
     [[''--'', ''bR'', ''--'', ''--'', ''--'', ''--'', ''--'', ''bK''],
      [''wp'', ''--'', ''--'', ''--'', ''--'', ''--'', ''--'', ''--''],
      empty_row, empty_row, empty_row, empty_row, empty_row,
      [''--'', ''--'', ''--'', ''--'', ''--'', ''--'', ''--'', ''wK'']]"

text \<open>White pawn on e5 (row 3, column 4) beside a black pawn on d5 (row 3, column 3), the
  position after the black pawn's advance d7-d5; the kings on e1 and e8.\<close>

definition en_passant_board :: board where
  "en_passant_board =
     [[''--'', ''--'', ''--'', ''--'', ''bK'', ''--'', ''--'', ''--''],
      empty_row, empty_row,
      [''--'', ''--'', ''--'', ''bp'', ''wp'', ''--'', ''--'', ''--''],
      empty_row, empty_row, empty_row,
      [''--'', ''--'', ''--'', ''--'', ''wK'', ''--'', ''--'', ''--'']]"

text \<open>White pawn on e4 (row 4, column 4), black pawn on d5 (row 3, column 3), the kings
  on e1 and e8.\<close>

definition pawn_capture_board :: board where
  "pawn_capture_board =
     [[''--'', ''--'', ''--'', ''--'', ''bK'', ''--'', ''--'', ''--''],
      empty_row, empty_row,
      [''--'', ''--'', ''--'', ''bp'', ''--'', ''--'', ''--'', ''--''],
      [''--'', ''--'', ''--'', ''--'', ''wp'', ''--'', ''--'', ''--''],
      empty_row, empty_row,
      [''--'', ''--'', ''--'', ''--'', ''wK'', ''--'', ''--'', ''--'']]"

text \<open>Two moves of the search engine, for a table entry.\<close>

definition sample_move_a :: Move where
  "sample_move_a = mk_move 6 4 4 4 ''wp'' []"

definition sample_move_b :: Move where
  "sample_move_b = mk_move 6 3 4 3 ''wp'' []"

section \<open>The game state (src/core/move.py, src/core/game_state.py)\<close>

subsection \<open>Python indexing\<close>

text \<open>
  Where the source indexes the board with a coordinate that no guard bounds, Python's
  rule decides: an index from \<open>-n\<close> up to \<open>n - 1\<close> is accepted, a negative one counting
  from the end, and any other raises \<^verbatim>\<open>IndexError\<close>, which is the value \<open>None\<close> here.
\<close>

definition py_norm :: "nat \<Rightarrow> int \<Rightarrow> nat option" where
  "py_norm n i =
     (if 0 \<le> i \<and> i < int n then Some (nat i)
      else if - int n \<le> i \<and> i < 0 then Some (nat (i + int n))
      else None)"

definition py_get :: "'a list \<Rightarrow> int \<Rightarrow> 'a option" where
  "py_get xs i = map_option (\<lambda>k. xs ! k) (py_norm (length xs) i)"

definition py_sq :: "board \<Rightarrow> int \<Rightarrow> int \<Rightarrow> string option" where
  "py_sq b r c = Option.bind (py_get b r) (\<lambda>row. py_get row c)"

definition py_set :: "board \<Rightarrow> int \<Rightarrow> int \<Rightarrow> string \<Rightarrow> board option" where
  "py_set b r c v =
     Option.bind (py_norm (length b) r) (\<lambda>i.
     Option.bind (py_norm (length (b ! i)) c) (\<lambda>j.
     Some (b[i := (b ! i)[j := v]])))"

text \<open>\<^verbatim>\<open>board[r][c]\<close> at a square whose read has already succeeded.\<close>

definition cell :: "board \<Rightarrow> int \<Rightarrow> int \<Rightarrow> string" where
  "cell b r c = (case py_sq b r c of Some x \<Rightarrow> x | None \<Rightarrow> [])"

subsection \<open>CastleRights and Move\<close>

record CastleRights =
  wks :: bool
  bks :: bool
  wqs :: bool
  bqs :: bool

text \<open>
  The class \<^verbatim>\<open>Move\<close> of core/move.py, called \<open>GameMove\<close> here because the search
  engine has a class of the same name. \<^verbatim>\<open>castle_rights_before\<close> and
  \<^verbatim>\<open>en_passant_before\<close> are \<^verbatim>\<open>None\<close> until \<^verbatim>\<open>make_move\<close> fills them; the
  en-passant target itself is the empty tuple (\<open>None\<close>) or a square. The identification
  numbers \<^verbatim>\<open>move_id\<close>, \<^verbatim>\<open>special_id\<close> and the counters \<^verbatim>\<open>last_moved\<close>,
  \<^verbatim>\<open>fifty_move_counter\<close> are computed and never read by the game state; they are left
  out.
\<close>

record GameMove =
  start_row :: int
  start_col :: int
  end_row :: int
  end_col :: int
  piece_moved :: string
  piece_captured :: string
  enPassant :: bool
  pawn_promotion :: bool
  is_castle_move :: bool
  promoted_to :: "string option"
  castle_rights_before :: "CastleRights option"
  en_passant_before :: "(int \<times> int) option option"

text \<open>The constructor; every call below follows a successful read of both squares.\<close>

definition Move_init ::
  "int \<times> int \<Rightarrow> int \<times> int \<Rightarrow> board \<Rightarrow> bool \<Rightarrow> bool \<Rightarrow> bool \<Rightarrow> GameMove" where
  "Move_init start_sq end_sq b en_passant promotion castle =
     (let pm = cell b (fst start_sq) (snd start_sq) in
      \<lparr>start_row = fst start_sq, start_col = snd start_sq,
       end_row = fst end_sq, end_col = snd end_sq,
       piece_moved = pm,
       piece_captured =
         (if en_passant then (if pm = ''wp'' then ''bp'' else ''wp'')
          else cell b (fst end_sq) (snd end_sq)),
       enPassant = en_passant, pawn_promotion = promotion, is_castle_move = castle,
       promoted_to = None, castle_rights_before = None, en_passant_before = None\<rparr>)"

text \<open>\<^verbatim>\<open>Move.__eq__\<close>.\<close>

definition move_eq :: "GameMove \<Rightarrow> GameMove \<Rightarrow> bool" where
  "move_eq m other \<longleftrightarrow>
     start_row m = start_row other \<and> start_col m = start_col other
     \<and> end_row m = end_row other \<and> end_col m = end_col other
     \<and> piece_moved m = piece_moved other \<and> pawn_promotion m = pawn_promotion other
     \<and> enPassant m = enPassant other \<and> is_castle_move m = is_castle_move other"

text \<open>\<^verbatim>\<open>list.remove(x)\<close> on a list of moves: the first element equal to \<open>x\<close> goes.\<close>

fun remove_move :: "GameMove \<Rightarrow> GameMove list \<Rightarrow> GameMove list" where
  "remove_move x [] = []"
| "remove_move x (y # ys) = (if move_eq y x then ys else y # remove_move x ys)"

subsection \<open>Pins and checks\<close>

type_synonym ray = "int \<times> int \<times> int \<times> int"

definition in_grid :: "int \<Rightarrow> int \<Rightarrow> bool" where
  "in_grid r c \<longleftrightarrow> 0 \<le> r \<and> r < 8 \<and> 0 \<le> c \<and> c < 8"

definition directions8 :: "(int \<times> int) list" where
  "directions8 = [(-1, 0), (0, -1), (1, 0), (0, 1), (-1, -1), (-1, 1), (1, -1), (1, 1)]"

definition knight_moves :: "(int \<times> int) list" where
  "knight_moves = [(-2, -1), (-2, 1), (-1, -2), (-1, 2), (1, -2), (1, 2), (2, -1), (2, 1)]"

definition steps7 :: "int list" where
  "steps7 = [1, 2, 3, 4, 5, 6, 7]"

text \<open>The test "this piece can attack in this direction" of \<^verbatim>\<open>check_for_pins_and_checks\<close>.\<close>

definition can_attack :: "char \<Rightarrow> int \<Rightarrow> int \<Rightarrow> char \<Rightarrow> bool" where
  "can_attack enemy_color j i piece_type \<longleftrightarrow>
     (0 \<le> j \<and> j \<le> 3 \<and> piece_type = CHR ''R'')
     \<or> (4 \<le> j \<and> j \<le> 7 \<and> piece_type = CHR ''B'')
     \<or> (i = 1 \<and> piece_type = CHR ''p''
         \<and> ((enemy_color = CHR ''w'' \<and> 6 \<le> j \<and> j \<le> 7)
            \<or> (enemy_color = CHR ''b'' \<and> 4 \<le> j \<and> j \<le> 5)))
     \<or> piece_type = CHR ''Q''
     \<or> (i = 1 \<and> piece_type = CHR ''K'')"

text \<open>
  One direction \<open>j\<close> of the scan: the loop \<^verbatim>\<open>for i in range(1, 8)\<close> with its breaks.
  The accumulator is \<open>(in_check, pins, checks)\<close>; \<open>possible_pin\<close> is \<open>None\<close> for the
  empty tuple.
\<close>

fun scan_ray ::
  "board \<Rightarrow> char \<Rightarrow> char \<Rightarrow> int \<Rightarrow> int \<Rightarrow> int \<Rightarrow> int \<times> int \<Rightarrow> ray option \<Rightarrow> int list
     \<Rightarrow> bool \<times> ray list \<times> ray list \<Rightarrow> bool \<times> ray list \<times> ray list" where
  "scan_ray b ally enemy sr sc j d possible_pin [] acc = acc"
| "scan_ray b ally enemy sr sc j d possible_pin (i # rest) acc =
     (let er = sr + fst d * i; ec = sc + snd d * i in
      if in_grid er ec then
        (let end_piece = sq b er ec in
         if end_piece ! 0 = ally \<and> end_piece ! 1 \<noteq> CHR ''K'' then
           (if possible_pin = None
            then scan_ray b ally enemy sr sc j d (Some (er, ec, fst d, snd d)) rest acc
            else acc)
         else if end_piece ! 0 = enemy then
           (if can_attack enemy j i (end_piece ! 1) then
              (case possible_pin of
                 None \<Rightarrow> (True, fst (snd acc), snd (snd acc) @ [(er, ec, fst d, snd d)])
               | Some p \<Rightarrow> (fst acc, fst (snd acc) @ [p], snd (snd acc)))
            else acc)
         else scan_ray b ally enemy sr sc j d possible_pin rest acc)
      else acc)"

definition knight_check ::
  "board \<Rightarrow> char \<Rightarrow> int \<Rightarrow> int \<Rightarrow> int \<times> int
     \<Rightarrow> bool \<times> ray list \<times> ray list \<Rightarrow> bool \<times> ray list \<times> ray list" where
  "knight_check b enemy sr sc mv acc =
     (let er = sr + fst mv; ec = sc + snd mv in
      if in_grid er ec then
        (let end_piece = sq b er ec in
         if end_piece ! 0 = enemy \<and> end_piece ! 1 = CHR ''N''
         then (True, fst (snd acc), snd (snd acc) @ [(er, ec, fst mv, snd mv)])
         else acc)
      else acc)"

text \<open>
  \<^verbatim>\<open>check_for_pins_and_checks\<close> reads the board, the side to move and the cached king
  locations, and returns \<open>(in_check, pins, checks)\<close>.
\<close>

definition check_for_pins_and_checks ::
  "board \<Rightarrow> bool \<Rightarrow> int \<times> int \<Rightarrow> int \<times> int \<Rightarrow> bool \<times> ray list \<times> ray list" where
  "check_for_pins_and_checks b wtm wkl bkl =
     (let enemy = (if wtm then CHR ''b'' else CHR ''w'');
          ally = (if wtm then CHR ''w'' else CHR ''b'');
          start = (if wtm then wkl else bkl);
          acc = fold (\<lambda>(j, d). scan_ray b ally enemy (fst start) (snd start) j d None steps7)
                  (zip range8 directions8) (False, [], [])
      in fold (knight_check b enemy (fst start) (snd start)) knight_moves acc)"

subsection \<open>Piece moves\<close>

text \<open>
  The generators read the board, the side to move and the en-passant target, and mutate
  two things of the game state: the list \<^verbatim>\<open>self.pins\<close> (a pin is removed once its piece
  has been handled) and the cached king locations (\<^verbatim>\<open>get_king_move\<close> moves the king
  and puts it back). These are passed in and returned; the moves appended to the
  caller's list are returned as a list.
\<close>

text \<open>The search for the pin of the piece on \<open>(r, c)\<close>, from the end of the list.\<close>

definition find_pin :: "ray list \<Rightarrow> int \<Rightarrow> int \<Rightarrow> ray option" where
  "find_pin pns r c = find (\<lambda>p. fst p = r \<and> fst (snd p) = c) (rev pns)"

definition pin_dir :: "ray option \<Rightarrow> (int \<times> int) option" where
  "pin_dir p = map_option (\<lambda>q. (fst (snd (snd q)), snd (snd (snd q)))) p"

definition get_pawn_move ::
  "board \<Rightarrow> bool \<Rightarrow> (int \<times> int) option \<Rightarrow> ray list \<Rightarrow> int \<Rightarrow> int
     \<Rightarrow> (GameMove list \<times> ray list) option" where
  "get_pawn_move b wtm ep pns r c =
     (let pin = find_pin pns r c;
          piece_pinned = (pin \<noteq> None);
          pin_direction = pin_dir pin;
          pns' = (case pin of None \<Rightarrow> pns | Some p \<Rightarrow> remove1 p pns);
          move_amount = (if wtm then -1 else 1);
          start_row = (if wtm then 6 else 1);
          back_row = (if wtm then 0 else 7);
          enemy_color = (if wtm then CHR ''b'' else CHR ''w'')
      in case py_sq b (r + move_amount) c of
           None \<Rightarrow> None
         | Some ahead \<Rightarrow>
            (let fwd = (ahead = ''--''
                        \<and> (\<not> piece_pinned \<or> pin_direction = Some (move_amount, 0)));
                 promo1 = (fwd \<and> r + move_amount = back_row);
                 forward =
                   (if fwd then
                      Move_init (r, c) (r + move_amount, c) b False promo1 False
                      # (if r = start_row \<and> sq b (r + 2 * move_amount) c = ''--''
                         then [Move_init (r, c) (r + 2 * move_amount, c) b False False False]
                         else [])
                    else []);
                 left_open = (c - 1 \<ge> 0
                        \<and> (\<not> piece_pinned \<or> pin_direction = Some (move_amount, -1)));
                 left_cap = (left_open \<and> cell b (r + move_amount) (c - 1) ! 0 = enemy_color);
                 promo2 = (if left_cap \<and> r + move_amount = back_row then True else promo1);
                 left =
                   (if left_open then
                      (if left_cap
                       then [Move_init (r, c) (r + move_amount, c - 1) b False promo2 False]
                       else [])
                      @ (if Some (r + move_amount, c - 1) = ep
                         then [Move_init (r, c) (r + move_amount, c - 1) b True False False]
                         else [])
                    else []);
                 right_open = (c + 1 \<le> 7
                        \<and> (\<not> piece_pinned \<or> pin_direction = Some (move_amount, 1)));
                 right_cap = (right_open \<and> cell b (r + move_amount) (c + 1) ! 0 = enemy_color);
                 promo3 = (if right_cap \<and> r + move_amount = back_row then True else promo2);
                 right =
                   (if right_open then
                      (if right_cap
                       then [Move_init (r, c) (r + move_amount, c + 1) b False promo3 False]
                       else [])
                      @ (if Some (r + move_amount, c + 1) = ep
                         then [Move_init (r, c) (r + move_amount, c + 1) b True False False]
                         else [])
                    else [])
             in Some (forward @ left @ right, pns')))"

text \<open>One direction of a sliding piece.\<close>

fun slide_from ::
  "board \<Rightarrow> int \<Rightarrow> int \<Rightarrow> char \<Rightarrow> bool \<Rightarrow> (int \<times> int) option \<Rightarrow> int \<times> int \<Rightarrow> int list
     \<Rightarrow> GameMove list" where
  "slide_from b r c enemy_color piece_pinned pin_direction d [] = []"
| "slide_from b r c enemy_color piece_pinned pin_direction d (i # rest) =
     (let er = r + fst d * i; ec = c + snd d * i in
      if in_grid er ec then
        (if \<not> piece_pinned \<or> pin_direction = Some d
            \<or> pin_direction = Some (- fst d, - snd d) then
           (let end_piece = sq b er ec in
            if end_piece = ''--'' then
              Move_init (r, c) (er, ec) b False False False
              # slide_from b r c enemy_color piece_pinned pin_direction d rest
            else if end_piece ! 0 = enemy_color then
              [Move_init (r, c) (er, ec) b False False False]
            else [])
         else slide_from b r c enemy_color piece_pinned pin_direction d rest)
      else [])"

definition gs_sliding_moves ::
  "board \<Rightarrow> bool \<Rightarrow> ray list \<Rightarrow> int \<Rightarrow> int \<Rightarrow> (int \<times> int) list \<Rightarrow> GameMove list \<times> ray list" where
  "gs_sliding_moves b wtm pns r c dirs =
     (let pin = find_pin pns r c;
          piece_pinned = (pin \<noteq> None);
          pin_direction = pin_dir pin;
          pns' = (case pin of None \<Rightarrow> pns
                  | Some p \<Rightarrow> if sq b r c ! 1 \<noteq> CHR ''Q'' then remove1 p pns else pns);
          enemy_color = (if wtm then CHR ''b'' else CHR ''w'')
      in (concat (map (\<lambda>d. slide_from b r c enemy_color piece_pinned pin_direction d steps7)
                   dirs),
          pns'))"

definition get_rook_move :: "board \<Rightarrow> bool \<Rightarrow> ray list \<Rightarrow> int \<Rightarrow> int \<Rightarrow> GameMove list \<times> ray list" where
  "get_rook_move b wtm pns r c = gs_sliding_moves b wtm pns r c [(-1, 0), (0, -1), (1, 0), (0, 1)]"

definition get_bishop_move :: "board \<Rightarrow> bool \<Rightarrow> ray list \<Rightarrow> int \<Rightarrow> int \<Rightarrow> GameMove list \<times> ray list" where
  "get_bishop_move b wtm pns r c =
     gs_sliding_moves b wtm pns r c [(-1, -1), (-1, 1), (1, -1), (1, 1)]"

definition get_queen_move :: "board \<Rightarrow> bool \<Rightarrow> ray list \<Rightarrow> int \<Rightarrow> int \<Rightarrow> GameMove list \<times> ray list" where
  "get_queen_move b wtm pns r c =
     gs_sliding_moves b wtm pns r c
       [(-1, 0), (0, -1), (1, 0), (0, 1), (-1, -1), (-1, 1), (1, -1), (1, 1)]"

definition get_knight_move :: "board \<Rightarrow> bool \<Rightarrow> ray list \<Rightarrow> int \<Rightarrow> int \<Rightarrow> GameMove list \<times> ray list" where
  "get_knight_move b wtm pns r c =
     (let pin = find_pin pns r c;
          piece_pinned = (pin \<noteq> None);
          pns' = (case pin of None \<Rightarrow> pns | Some p \<Rightarrow> remove1 p pns);
          ally_color = (if wtm then CHR ''w'' else CHR ''b'')
      in (concat (map (\<lambda>mv.
            let er = r + fst mv; ec = c + snd mv in
            if in_grid er ec \<and> \<not> piece_pinned \<and> sq b er ec ! 0 \<noteq> ally_color
            then [Move_init (r, c) (er, ec) b False False False] else []) knight_moves),
          pns'))"

text \<open>
  One target square of the king: the cached location of the moving side's king is set
  to the target, the check scan is run, and the location is set to \<open>(r, c)\<close>.
  The accumulator is (moves, white king location, black king location).
\<close>

definition king_step ::
  "board \<Rightarrow> bool \<Rightarrow> int \<Rightarrow> int \<Rightarrow> int \<times> int
     \<Rightarrow> GameMove list \<times> (int \<times> int) \<times> (int \<times> int)
     \<Rightarrow> GameMove list \<times> (int \<times> int) \<times> (int \<times> int)" where
  "king_step b wtm r c mv acc =
     (let er = r + fst mv; ec = c + snd mv;
          ally_color = (if wtm then CHR ''w'' else CHR ''b'') in
      if in_grid er ec \<and> sq b er ec ! 0 \<noteq> ally_color then
        (let wkl1 = (if ally_color = CHR ''w'' then (er, ec) else fst (snd acc));
             bkl1 = (if ally_color = CHR ''w'' then snd (snd acc) else (er, ec));
             in_chk = fst (check_for_pins_and_checks b wtm wkl1 bkl1);
             new = (if \<not> in_chk then [Move_init (r, c) (er, ec) b False False False] else [])
         in (fst acc @ new,
             if ally_color = CHR ''w'' then (r, c) else wkl1,
             if ally_color = CHR ''w'' then bkl1 else (r, c)))
      else acc)"

definition king_offsets :: "(int \<times> int) list" where
  "king_offsets = [(-1, -1), (-1, 0), (-1, 1), (0, -1), (0, 1), (1, -1), (1, 0), (1, 1)]"

definition get_king_move ::
  "board \<Rightarrow> bool \<Rightarrow> int \<times> int \<Rightarrow> int \<times> int \<Rightarrow> int \<Rightarrow> int
     \<Rightarrow> GameMove list \<times> (int \<times> int) \<times> (int \<times> int)" where
  "get_king_move b wtm wkl bkl r c = fold (king_step b wtm r c) king_offsets ([], wkl, bkl)"

subsection \<open>All moves of the side to move\<close>

text \<open>The part of the game state the generators mutate: pins and the two king locations.\<close>

type_synonym gen_state = "ray list \<times> (int \<times> int) \<times> (int \<times> int)"

text \<open>The body of the double loop of \<^verbatim>\<open>get_all_possible_moves\<close> at one square.\<close>

definition moves_at ::
  "board \<Rightarrow> bool \<Rightarrow> (int \<times> int) option \<Rightarrow> gen_state \<Rightarrow> int \<Rightarrow> int
     \<Rightarrow> (GameMove list \<times> gen_state) option" where
  "moves_at b wtm ep st row col =
     (let turn = sq b row col ! 0; pns = fst st; wkl = fst (snd st); bkl = snd (snd st) in
      if (turn = CHR ''w'' \<and> wtm) \<or> (turn = CHR ''b'' \<and> \<not> wtm) then
        (let p = sq b row col ! 1 in
         if p = CHR ''p'' then
           map_option (\<lambda>(ms, pns'). (ms, pns', wkl, bkl)) (get_pawn_move b wtm ep pns row col)
         else if p = CHR ''R'' then
           (let (ms, pns') = get_rook_move b wtm pns row col in Some (ms, pns', wkl, bkl))
         else if p = CHR ''N'' then
           (let (ms, pns') = get_knight_move b wtm pns row col in Some (ms, pns', wkl, bkl))
         else if p = CHR ''B'' then
           (let (ms, pns') = get_bishop_move b wtm pns row col in Some (ms, pns', wkl, bkl))
         else if p = CHR ''Q'' then
           (let (ms, pns') = get_queen_move b wtm pns row col in Some (ms, pns', wkl, bkl))
         else if p = CHR ''K'' then
           (let (ms, wkl', bkl') = get_king_move b wtm wkl bkl row col
            in Some (ms, pns, wkl', bkl'))
         else Some ([], st))
      else Some ([], st))"

fun all_moves_loop ::
  "board \<Rightarrow> bool \<Rightarrow> (int \<times> int) option \<Rightarrow> (int \<times> int) list \<Rightarrow> GameMove list \<times> gen_state
     \<Rightarrow> (GameMove list \<times> gen_state) option" where
  "all_moves_loop b wtm ep [] acc = Some acc"
| "all_moves_loop b wtm ep (s # rest) acc =
     (case moves_at b wtm ep (snd acc) (fst s) (snd s) of
        None \<Rightarrow> None
      | Some (ms, st') \<Rightarrow> all_moves_loop b wtm ep rest (fst acc @ ms, st'))"

definition squares64 :: "(int \<times> int) list" where
  "squares64 = concat (map (\<lambda>row. map (\<lambda>col. (row, col)) range8) range8)"

definition get_all_possible_moves ::
  "board \<Rightarrow> bool \<Rightarrow> (int \<times> int) option \<Rightarrow> gen_state \<Rightarrow> (GameMove list \<times> gen_state) option" where
  "get_all_possible_moves b wtm ep st = all_moves_loop b wtm ep squares64 ([], st)"

subsection \<open>Castling\<close>

definition square_under_attack ::
  "board \<Rightarrow> bool \<Rightarrow> (int \<times> int) option \<Rightarrow> gen_state \<Rightarrow> int \<Rightarrow> int \<Rightarrow> (bool \<times> gen_state) option" where
  "square_under_attack b wtm ep st row col =
     map_option (\<lambda>(opponent_moves, st').
         (list_ex (\<lambda>m. end_row m = row \<and> end_col m = col) opponent_moves, st'))
       (get_all_possible_moves b (\<not> wtm) ep st)"

definition get_kingside_castle_moves ::
  "board \<Rightarrow> bool \<Rightarrow> (int \<times> int) option \<Rightarrow> gen_state \<Rightarrow> int \<Rightarrow> int
     \<Rightarrow> (GameMove list \<times> gen_state) option" where
  "get_kingside_castle_moves b wtm ep st row col =
     (case py_sq b row (col + 1) of
        None \<Rightarrow> None
      | Some x1 \<Rightarrow>
          if x1 \<noteq> ''--'' then Some ([], st)
          else
            (case py_sq b row (col + 2) of
               None \<Rightarrow> None
             | Some x2 \<Rightarrow>
                 if x2 \<noteq> ''--'' then Some ([], st)
                 else
                   (case square_under_attack b wtm ep st row (col + 1) of
                      None \<Rightarrow> None
                    | Some (a1, st1) \<Rightarrow>
                        if a1 then Some ([], st1)
                        else
                          (case square_under_attack b wtm ep st1 row (col + 2) of
                             None \<Rightarrow> None
                           | Some (a2, st2) \<Rightarrow>
                               if a2 then Some ([], st2)
                               else Some ([Move_init (row, col) (row, col + 2) b False False True],
                                          st2)))))"

definition get_queenside_castle_moves ::
  "board \<Rightarrow> bool \<Rightarrow> (int \<times> int) option \<Rightarrow> gen_state \<Rightarrow> int \<Rightarrow> int
     \<Rightarrow> (GameMove list \<times> gen_state) option" where
  "get_queenside_castle_moves b wtm ep st row col =
     (case py_sq b row (col - 1) of
        None \<Rightarrow> None
      | Some x1 \<Rightarrow>
          if x1 \<noteq> ''--'' then Some ([], st)
          else
            (case py_sq b row (col - 2) of
               None \<Rightarrow> None
             | Some x2 \<Rightarrow>
                 if x2 \<noteq> ''--'' then Some ([], st)
                 else
                   (case py_sq b row (col - 3) of
                      None \<Rightarrow> None
                    | Some x3 \<Rightarrow>
                        if x3 \<noteq> ''--'' then Some ([], st)
                        else
                          (case square_under_attack b wtm ep st row (col - 1) of
                             None \<Rightarrow> None
                           | Some (a1, st1) \<Rightarrow>
                               if a1 then Some ([], st1)
                               else
                                 (case square_under_attack b wtm ep st1 row (col - 2) of
                                    None \<Rightarrow> None
                                  | Some (a2, st2) \<Rightarrow>
                                      if a2 then Some ([], st2)
                                      else Some ([Move_init (row, col) (row, col - 2) b
                                                    False False True], st2))))))"

definition get_castle_moves ::
  "board \<Rightarrow> bool \<Rightarrow> CastleRights \<Rightarrow> (int \<times> int) option \<Rightarrow> gen_state \<Rightarrow> int \<Rightarrow> int
     \<Rightarrow> (GameMove list \<times> gen_state) option" where
  "get_castle_moves b wtm rights ep st row col =
     (case square_under_attack b wtm ep st row col of
        None \<Rightarrow> None
      | Some (a0, st0) \<Rightarrow>
          if a0 then Some ([], st0)
          else
            (case (if (wtm \<and> wks rights) \<or> (\<not> wtm \<and> bks rights)
                   then get_kingside_castle_moves b wtm ep st0 row col
                   else Some ([], st0)) of
               None \<Rightarrow> None
             | Some (ks, st1) \<Rightarrow>
                 (case (if (wtm \<and> wqs rights) \<or> (\<not> wtm \<and> bqs rights)
                        then get_queenside_castle_moves b wtm ep st1 row col
                        else Some ([], st1)) of
                    None \<Rightarrow> None
                  | Some (qs, st2) \<Rightarrow> Some (ks @ qs, st2))))"

subsection \<open>GameState\<close>

text \<open>
  The fields of \<^verbatim>\<open>GameState\<close> that the game logic reads or writes. The fields that only
  the user interface uses (\<^verbatim>\<open>sq_selected\<close>, \<^verbatim>\<open>player_clicks\<close>, \<^verbatim>\<open>move_made\<close>,
  \<^verbatim>\<open>animate_move\<close>, \<^verbatim>\<open>game_over\<close>, \<^verbatim>\<open>turn_num\<close>) and \<^verbatim>\<open>hash_board\<close>, a tuple copy
  of the board that is refreshed after every change of it, are left out.
\<close>

record GameState =
  board :: board
  white_to_move :: bool
  move_log :: "GameMove list"
  white_king_location :: "int \<times> int"
  black_king_location :: "int \<times> int"
  enPassant_possible :: "(int \<times> int) option"
  enPassant_possible_log :: "(int \<times> int) option list"
  current_castling_rights :: CastleRights
  castle_rights_log :: "CastleRights list"
  pins :: "ray list"
  checks :: "ray list"
  promotion_piece :: string
  ai_promotion_piece :: string
  player_promote :: bool
  in_check :: bool
  checkmate :: bool
  stalemate :: bool

definition initial_board :: "string list list" where
  "initial_board =
     [[''bR'', ''bN'', ''bB'', ''bQ'', ''bK'', ''bB'', ''bN'', ''bR''],
      [''bp'', ''bp'', ''bp'', ''bp'', ''bp'', ''bp'', ''bp'', ''bp''],
      [''--'', ''--'', ''--'', ''--'', ''--'', ''--'', ''--'', ''--''],
      [''--'', ''--'', ''--'', ''--'', ''--'', ''--'', ''--'', ''--''],
      [''--'', ''--'', ''--'', ''--'', ''--'', ''--'', ''--'', ''--''],
      [''--'', ''--'', ''--'', ''--'', ''--'', ''--'', ''--'', ''--''],
      [''wp'', ''wp'', ''wp'', ''wp'', ''wp'', ''wp'', ''wp'', ''wp''],
      [''wR'', ''wN'', ''wB'', ''wQ'', ''wK'', ''wB'', ''wN'', ''wR'']]"

definition GameState_init :: GameState where
  "GameState_init =
     \<lparr>board = initial_board,
      white_to_move = True,
      move_log = [],
      white_king_location = (7, 4),
      black_king_location = (0, 4),
      enPassant_possible = None,
      enPassant_possible_log = [None],
      current_castling_rights = \<lparr>wks = True, bks = True, wqs = True, bqs = True\<rparr>,
      castle_rights_log = [\<lparr>wks = True, bks = True, wqs = True, bqs = True\<rparr>],
      pins = [],
      checks = [],
      promotion_piece = ''Q'',
      ai_promotion_piece = ''Q'',
      player_promote = False,
      in_check = False,
      checkmate = False,
      stalemate = False\<rparr>"

subsection \<open>get_valid_moves\<close>

text \<open>The squares on which a single check can be answered.\<close>

fun block_squares :: "int \<Rightarrow> int \<Rightarrow> ray \<Rightarrow> int list \<Rightarrow> (int \<times> int) list" where
  "block_squares king_row king_col chk [] = []"
| "block_squares king_row king_col chk (i # rest) =
     (let valid_square = (king_row + fst (snd (snd chk)) * i, king_col + snd (snd (snd chk)) * i)
      in valid_square
         # (if fst valid_square = fst chk \<and> snd valid_square = fst (snd chk) then []
            else block_squares king_row king_col chk rest))"

text \<open>
  The loop that removes the moves which do not answer the check. It runs over the
  indices from the last to the first and removes with \<^verbatim>\<open>list.remove\<close>.
\<close>

definition drop_unhelpful :: "(int \<times> int) list \<Rightarrow> GameMove list \<Rightarrow> GameMove list" where
  "drop_unhelpful valid_squares ms =
     fold (\<lambda>i ms.
        if piece_moved (ms ! i) ! 1 \<noteq> CHR ''K''
           \<and> (end_row (ms ! i), end_col (ms ! i)) \<notin> set valid_squares
        then remove_move (ms ! i) ms else ms)
       (rev [0..<length ms]) ms"

definition get_valid_moves :: "GameState \<Rightarrow> (GameMove list \<times> GameState) option" where
  "get_valid_moves s =
     (let (ic, pns, chks) =
            check_for_pins_and_checks (board s) (white_to_move s)
              (white_king_location s) (black_king_location s);
          b = board s; wtm = white_to_move s; ep = enPassant_possible s;
          st = (pns, white_king_location s, black_king_location s);
          king = (if wtm then white_king_location s else black_king_location s);
          king_row = fst king; king_col = snd king;
          generated =
            (if ic then
               (if length chks = 1 then
                  (case get_all_possible_moves b wtm ep st of
                     None \<Rightarrow> None
                   | Some (ms, st') \<Rightarrow>
                       (let chk = chks ! 0;
                            piece_checking = sq b (fst chk) (fst (snd chk));
                            valid_squares =
                              (if piece_checking ! 1 = CHR ''N'' then [(fst chk, fst (snd chk))]
                               else block_squares king_row king_col chk steps7)
                        in Some (drop_unhelpful valid_squares ms, st')))
                else
                  (let (ms, wkl', bkl') =
                         get_king_move b wtm (fst (snd st)) (snd (snd st)) king_row king_col
                   in Some (ms, fst st, wkl', bkl')))
             else get_all_possible_moves b wtm ep st)
      in case generated of
           None \<Rightarrow> None
         | Some (ms, st1) \<Rightarrow>
             (case (if \<not> ic
                    then get_castle_moves b wtm (current_castling_rights s) ep st1 king_row king_col
                    else Some ([], st1)) of
                None \<Rightarrow> None
              | Some (cs, st2) \<Rightarrow>
                  (let moves = ms @ cs;
                       s1 = s\<lparr>in_check := ic, pins := fst st2, checks := chks,
                              white_king_location := fst (snd st2),
                              black_king_location := snd (snd st2)\<rparr>;
                       s2 = (if length moves = 0 then
                               (if ic then s1\<lparr>checkmate := True\<rparr> else s1\<lparr>stalemate := True\<rparr>)
                             else s1\<lparr>checkmate := False, stalemate := False\<rparr>)
                   in Some (moves, s2))))"

subsection \<open>make_move and undo_move\<close>

definition handle_king_move :: "GameState \<Rightarrow> GameMove \<Rightarrow> GameState" where
  "handle_king_move s m =
     (if piece_moved m = ''wK'' then s\<lparr>white_king_location := (end_row m, end_col m)\<rparr>
      else if piece_moved m = ''bK'' then s\<lparr>black_king_location := (end_row m, end_col m)\<rparr>
      else s)"

definition handle_en_passant :: "GameState \<Rightarrow> GameMove \<Rightarrow> GameState option" where
  "handle_en_passant s m =
     (let s1 = (if piece_moved m ! 1 = CHR ''p'' \<and> \<bar>start_row m - end_row m\<bar> = 2
                then s\<lparr>enPassant_possible := Some ((end_row m + start_row m) div 2, end_col m)\<rparr>
                else s\<lparr>enPassant_possible := None\<rparr>)
      in if enPassant m then
           (let captured_pawn_row =
                  (if piece_moved m ! 0 = CHR ''w'' then end_row m + 1 else end_row m - 1)
            in map_option (\<lambda>b. s1\<lparr>board := b\<rparr>)
                 (py_set (board s1) captured_pawn_row (end_col m) ''--''))
         else Some s1)"

text \<open>
  \<^verbatim>\<open>handle_pawn_promotion\<close> also writes \<^verbatim>\<open>promoted_to\<close> into the move, which by then
  is the last element of the move log.
\<close>

definition handle_pawn_promotion :: "GameState \<Rightarrow> GameMove \<Rightarrow> GameState option" where
  "handle_pawn_promotion s m =
     (if pawn_promotion m then
        (let promoted_piece = (if player_promote s then promotion_piece s else ai_promotion_piece s)
         in map_option (\<lambda>b.
              s\<lparr>board := b,
                move_log := butlast (move_log s) @ [m\<lparr>promoted_to := Some promoted_piece\<rparr>],
                player_promote := False\<rparr>)
              (py_set (board s) (end_row m) (end_col m) (piece_moved m ! 0 # promoted_piece)))
      else Some s)"

definition handle_castling :: "GameState \<Rightarrow> GameMove \<Rightarrow> GameState option" where
  "handle_castling s m =
     (if is_castle_move m then
        (if end_col m - start_col m = 2 then
           Option.bind (py_sq (board s) (end_row m) (end_col m + 1)) (\<lambda>rook.
           Option.bind (py_set (board s) (end_row m) (end_col m - 1) rook) (\<lambda>b1.
           Option.bind (py_set b1 (end_row m) (end_col m + 1) ''--'') (\<lambda>b2.
           Some (s\<lparr>board := b2\<rparr>))))
         else
           Option.bind (py_sq (board s) (end_row m) (end_col m - 2)) (\<lambda>rook.
           Option.bind (py_set (board s) (end_row m) (end_col m + 1) rook) (\<lambda>b1.
           Option.bind (py_set b1 (end_row m) (end_col m - 2) ''--'') (\<lambda>b2.
           Some (s\<lparr>board := b2\<rparr>)))))
      else Some s)"

definition update_castle_rights :: "CastleRights \<Rightarrow> GameMove \<Rightarrow> CastleRights" where
  "update_castle_rights rights m =
     (let r1 =
        (if piece_moved m = ''wK'' then rights\<lparr>wqs := False, wks := False\<rparr>
         else if piece_moved m = ''bK'' then rights\<lparr>bqs := False, bks := False\<rparr>
         else if piece_moved m = ''wR'' then
           (if start_row m = 7 then
              (if start_col m = 0 then rights\<lparr>wqs := False\<rparr>
               else if start_col m = 7 then rights\<lparr>wks := False\<rparr>
               else rights)
            else rights)
         else if piece_moved m = ''bR'' then
           (if start_row m = 0 then
              (if start_col m = 0 then rights\<lparr>bqs := False\<rparr>
               else if start_col m = 7 then rights\<lparr>bks := False\<rparr>
               else rights)
            else rights)
         else rights)
      in if piece_captured m = ''wR'' then
           (if end_col m = 0 \<and> end_row m = 7 then r1\<lparr>wqs := False\<rparr>
            else if end_col m = 7 \<and> end_row m = 7 then r1\<lparr>wks := False\<rparr>
            else r1)
         else if piece_captured m = ''bR'' then
           (if end_col m = 0 \<and> end_row m = 0 then r1\<lparr>bqs := False\<rparr>
            else if end_col m = 7 \<and> end_row m = 0 then r1\<lparr>bks := False\<rparr>
            else r1)
         else r1)"

definition make_move :: "GameState \<Rightarrow> GameMove \<Rightarrow> GameState option" where
  "make_move s move =
     (let m = move\<lparr>castle_rights_before := Some (current_castling_rights s),
                   en_passant_before := Some (enPassant_possible s)\<rparr>
      in Option.bind (py_set (board s) (end_row m) (end_col m) (piece_moved m)) (\<lambda>b1.
         Option.bind (py_set b1 (start_row m) (start_col m) ''--'') (\<lambda>b2.
         Option.bind (handle_en_passant
                       (handle_king_move
                          (s\<lparr>board := b2, move_log := move_log s @ [m],
                             white_to_move := \<not> white_to_move s\<rparr>) m) m) (\<lambda>s3.
         Option.bind (handle_pawn_promotion s3 m) (\<lambda>s4.
         Option.bind (handle_castling s4 m) (\<lambda>s5.
         (let rights = update_castle_rights (current_castling_rights s5) m
          in Some (s5\<lparr>current_castling_rights := rights,
                      castle_rights_log := castle_rights_log s5 @ [rights],
                      enPassant_possible_log :=
                        enPassant_possible_log s5 @ [enPassant_possible s5]\<rparr>))))))))"

definition undo_king_move :: "GameState \<Rightarrow> GameMove \<Rightarrow> GameState" where
  "undo_king_move s m =
     (if piece_moved m = ''wK'' then s\<lparr>white_king_location := (start_row m, start_col m)\<rparr>
      else if piece_moved m = ''bK'' then s\<lparr>black_king_location := (start_row m, start_col m)\<rparr>
      else s)"

definition undo_en_passant :: "GameState \<Rightarrow> GameMove \<Rightarrow> GameState option" where
  "undo_en_passant s m =
     (if enPassant m then
        (if piece_moved m ! 0 = CHR ''w''
         then map_option (\<lambda>b. s\<lparr>board := b\<rparr>) (py_set (board s) (end_row m + 1) (end_col m) ''bp'')
         else map_option (\<lambda>b. s\<lparr>board := b\<rparr>) (py_set (board s) (end_row m - 1) (end_col m) ''wp''))
      else Some s)"

definition undo_castling :: "GameState \<Rightarrow> GameMove \<Rightarrow> GameState option" where
  "undo_castling s m =
     (if is_castle_move m then
        (if end_col m - start_col m = 2 then
           Option.bind (py_sq (board s) (end_row m) (end_col m - 1)) (\<lambda>rook.
           Option.bind (py_set (board s) (end_row m) (end_col m + 1) rook) (\<lambda>b1.
           Option.bind (py_set b1 (end_row m) (end_col m - 1) ''--'') (\<lambda>b2.
           Some (s\<lparr>board := b2\<rparr>))))
         else
           Option.bind (py_sq (board s) (end_row m) (end_col m + 1)) (\<lambda>rook.
           Option.bind (py_set (board s) (end_row m) (end_col m - 2) rook) (\<lambda>b1.
           Option.bind (py_set b1 (end_row m) (end_col m + 1) ''--'') (\<lambda>b2.
           Some (s\<lparr>board := b2\<rparr>)))))
      else Some s)"

text \<open>
  \<^verbatim>\<open>undo_move\<close> returns \<^verbatim>\<open>False\<close> on an empty log and \<^verbatim>\<open>True\<close> otherwise. A move in
  the log has had \<^verbatim>\<open>en_passant_before\<close> filled by \<^verbatim>\<open>make_move\<close>; were it still
  \<^verbatim>\<open>None\<close>, the target would become \<^verbatim>\<open>None\<close>, which no comparison with a square
  distinguishes from the empty tuple.
\<close>

definition undo_move :: "GameState \<Rightarrow> (bool \<times> GameState) option" where
  "undo_move s =
     (if length (move_log s) = 0 then Some (False, s)
      else
        (let m = last (move_log s) in
         Option.bind (py_set (board s) (start_row m) (start_col m) (piece_moved m)) (\<lambda>b1.
         Option.bind (py_set b1 (end_row m) (end_col m) (piece_captured m)) (\<lambda>b2.
         Option.bind (undo_en_passant
                       (undo_king_move
                          (s\<lparr>board := b2, move_log := butlast (move_log s),
                             white_to_move := \<not> white_to_move s\<rparr>) m) m) (\<lambda>s3.
         Option.bind (undo_castling s3 m) (\<lambda>s4.
         (let s5 =
                (case castle_rights_before m of
                   Some rights \<Rightarrow> s4\<lparr>current_castling_rights := rights\<rparr>
                 | None \<Rightarrow>
                     if length (castle_rights_log s4) > 1
                     then s4\<lparr>castle_rights_log := butlast (castle_rights_log s4),
                             current_castling_rights := last (butlast (castle_rights_log s4))\<rparr>
                     else s4);
              s6 = s5\<lparr>enPassant_possible :=
                        (case en_passant_before m of Some e \<Rightarrow> e | None \<Rightarrow> None)\<rparr>
          in Some (True, s6\<lparr>checkmate := False, stalemate := False\<rparr>))))))))"


subsection \<open>Concrete game states\<close>

text \<open>
  The states below are the constructor's state with the fields of the position set. White
  king on e1 with the rook on h1 and the right to castle on the king's side, a black pawn
  on h2, the black king on e8; White to move.
\<close>

definition castle_board :: board where
  "castle_board =
     [[''--'', ''--'', ''--'', ''--'', ''bK'', ''--'', ''--'', ''--''],
      empty_row, empty_row, empty_row, empty_row, empty_row,
      [''--'', ''--'', ''--'', ''--'', ''--'', ''--'', ''--'', ''bp''],
      [''--'', ''--'', ''--'', ''--'', ''wK'', ''--'', ''--'', ''wR'']]"

definition castle_state :: GameState where
  "castle_state = GameState_init\<lparr>board := castle_board,
     current_castling_rights := \<lparr>wks = True, bks = False, wqs = False, bqs = False\<rparr>,
     castle_rights_log := [\<lparr>wks = True, bks = False, wqs = False, bqs = False\<rparr>]\<rparr>"

text \<open>
  The position of \<open>en_passant_board\<close> after Black's d7-d5: White to move, en-passant
  target d6 (row 2, column 3), no castling rights.
\<close>

definition en_passant_state :: GameState where
  "en_passant_state = GameState_init\<lparr>board := en_passant_board,
     enPassant_possible := Some (2, 3), enPassant_possible_log := [Some (2, 3)],
     current_castling_rights := \<lparr>wks = False, bks = False, wqs = False, bqs = False\<rparr>,
     castle_rights_log := [\<lparr>wks = False, bks = False, wqs = False, bqs = False\<rparr>]\<rparr>"

text \<open>
  White king on h1, black queen on g2 guarded by the black king on g3; White to move and
  mated.
\<close>

definition mate_board :: board where
  "mate_board =
     [empty_row, empty_row, empty_row, empty_row, empty_row,
      [''--'', ''--'', ''--'', ''--'', ''--'', ''--'', ''bK'', ''--''],
      [''--'', ''--'', ''--'', ''--'', ''--'', ''--'', ''bQ'', ''--''],
      [''--'', ''--'', ''--'', ''--'', ''--'', ''--'', ''--'', ''wK'']]"

definition mate_state :: GameState where
  "mate_state = GameState_init\<lparr>board := mate_board,
     white_king_location := (7, 7), black_king_location := (5, 6),
     current_castling_rights := \<lparr>wks = False, bks = False, wqs = False, bqs = False\<rparr>,
     castle_rights_log := [\<lparr>wks = False, bks = False, wqs = False, bqs = False\<rparr>]\<rparr>"

section \<open>Transposition table: replacement policy and capacity\<close>

lemma probe_table [simp]: "table (snd (probe t key d alpha beta)) = table t"
  by (simp add: probe_def Let_def split: option.splits)

lemma probe_generation [simp]: "generation (snd (probe t key d alpha beta)) = generation t"
  by (simp add: probe_def Let_def split: option.splits)

lemma probe_tt_size [simp]: "tt_size (snd (probe t key d alpha beta)) = tt_size t"
  by (simp add: probe_def Let_def split: option.splits)

lemma store_tt_size [simp]: "tt_size (store t key d sc fl bm) = tt_size t"
  by (simp add: store_def split: option.splits)

lemma store_generation [simp]: "generation (store t key d sc fl bm) = generation t"
  by (simp add: store_def split: option.splits)

lemma ages_ok_store: "ages_ok t \<Longrightarrow> ages_ok (store t key d sc fl bm)"
  by (auto simp: ages_ok_def store_def split: option.splits if_splits)

lemma tt_reachable_ages_ok: "tt_reachable size_mb t \<Longrightarrow> ages_ok t"
proof (induction rule: tt_reachable.induct)
  case tt_init
  show ?case by (simp add: ages_ok_def TranspositionTable_init_def)
next
  case (tt_store t key d sc fl bm)
  then show ?case by (simp add: ages_ok_store)
next
  case (tt_probe t key d alpha beta)
  then show ?case by (simp add: ages_ok_def)
next
  case (tt_new_search t)
  then show ?case by (fastforce simp: ages_ok_def new_search_def)
next
  case (tt_clear t)
  show ?case by (simp add: ages_ok_def clear_def)
qed

lemma tt_reachable_tt_size:
  "tt_reachable size_mb t \<Longrightarrow> tt_size t = (size_mb * 1024 * 1024) div 32"
  by (induction rule: tt_reachable.induct)
     (simp_all add: TranspositionTable_init_def new_search_def clear_def)

lemma len_table_store_le:
  assumes "len_table t \<le> tt_size t"
  shows "len_table (store t key d sc fl bm) \<le> tt_size (store t key d sc fl bm)"
proof (cases "fmlookup (table t) key")
  case None
  then have "key |\<notin>| fmdom (table t)" by (simp add: fmdom_notI)
  then have "fcard (finsert key (fmdom (table t))) = Suc (fcard (fmdom (table t)))"
    by (simp add: fcard_finsert_disjoint)
  with None assms show ?thesis by (simp add: store_def len_table_def)
next
  case (Some old_entry)
  then have "key |\<in>| fmdom (table t)" by (simp add: fmdomI)
  then have "finsert key (fmdom (table t)) = fmdom (table t)" by auto
  with Some assms show ?thesis by (simp add: store_def len_table_def)
qed

text \<open>
  C6. On a table in any state the class can reach, \<open>store\<close> on a key that is present
  overwrites the entry exactly when the incoming depth is at least the stored depth or
  the stored entry's generation lies more than two searches back, and otherwise returns
  the table as it was; on a key that is absent it inserts the entry exactly when the
  number of entries is below the capacity, and otherwise returns the table as it was.
\<close>

theorem store_replacement_policy:
  assumes "tt_reachable size_mb t"
  shows "(\<forall>old_entry. fmlookup (table t) key = Some old_entry \<longrightarrow>
            store t key d sc fl bm =
              (if d \<ge> depth old_entry \<or> generation t - age old_entry > 2
               then t\<lparr>table := fmupd key
                       \<lparr>score = sc, depth = d, flag = fl, best_move = bm, age = generation t\<rparr>
                       (table t)\<rparr>
               else t))
       \<and> (fmlookup (table t) key = None \<longrightarrow>
            store t key d sc fl bm =
              (if len_table t < tt_size t
               then t\<lparr>table := fmupd key
                       \<lparr>score = sc, depth = d, flag = fl, best_move = bm, age = generation t\<rparr>
                       (table t)\<rparr>
               else t))"
proof -
  have ages: "ages_ok t" using assms by (rule tt_reachable_ages_ok)
  have "\<bar>generation t - age e\<bar> = generation t - age e" if "fmlookup (table t) key = Some e" for e
    using ages that by (auto simp: ages_ok_def)
  then show ?thesis by (simp add: store_def)
qed

theorem store_replacement_policy_witness:
  "tt_reachable 1 (store (TranspositionTable_init 1) 5 3 10 0 None)
   \<and> store (store (TranspositionTable_init 1) 5 3 10 0 None) 5 2 99 1 None
       = store (TranspositionTable_init 1) 5 3 10 0 None
   \<and> table (store (store (TranspositionTable_init 1) 5 3 10 0 None) 7 1 20 2 None)
       = fmupd 7 \<lparr>score = 20, depth = 1, flag = 2, best_move = None, age = 0\<rparr>
           (table (store (TranspositionTable_init 1) 5 3 10 0 None))"
proof -
  let ?t = "store (TranspositionTable_init 1) 5 3 10 0 None"
  have r: "tt_reachable 1 ?t" by (rule tt_store) (rule tt_init)
  have t: "?t = \<lparr>tt_size = 32768,
                 table = fmupd 5 \<lparr>score = 10, depth = 3, flag = 0, best_move = None, age = 0\<rparr> fmempty,
                 generation = 0, hits = 0, misses = 0\<rparr>"
    by (simp add: store_def TranspositionTable_init_def len_table_def fcard_fempty)
  have l: "len_table ?t = 1" unfolding t by (simp add: len_table_def fcard_finsert_if fcard_fempty)
  show ?thesis
    using r store_replacement_policy [OF r, of 5 2 99 1 None]
      store_replacement_policy [OF r, of 7 1 20 2 None] l
    unfolding t by simp
qed

text \<open>
  C7. A table constructed with a positive \<open>size_mb\<close> never holds more entries than its
  capacity \<open>size_mb * 1024 * 1024 div 32\<close>: the bound holds for the constructor's
  result and every one of store, probe, new_search and clear preserves it.
\<close>

theorem table_within_capacity:
  assumes "0 < size_mb" and "tt_reachable size_mb t"
  shows "len_table t \<le> (size_mb * 1024 * 1024) div 32"
proof -
  have "len_table t \<le> tt_size t"
    using assms(2)
  proof (induction rule: tt_reachable.induct)
    case tt_init
    from assms(1) show ?case
      by (simp add: TranspositionTable_init_def len_table_def fcard_fempty)
  next
    case (tt_store t key d sc fl bm)
    from tt_store.IH show ?case by (rule len_table_store_le)
  next
    case (tt_probe t key d alpha beta)
    then show ?case by (simp add: len_table_def)
  next
    case (tt_new_search t)
    then show ?case by (simp add: new_search_def len_table_def)
  next
    case (tt_clear t)
    have "tt_size t = (size_mb * 1024 * 1024) div 32"
      using tt_clear.hyps by (rule tt_reachable_tt_size)
    with assms(1) show ?case by (simp add: clear_def len_table_def fcard_fempty)
  qed
  with tt_reachable_tt_size [OF assms(2)] show ?thesis by simp
qed

theorem table_within_capacity_witness:
  "(0::int) < 1
   \<and> tt_reachable 1 (store (new_search (TranspositionTable_init 1)) 5 3 10 0 None)
   \<and> len_table (store (new_search (TranspositionTable_init 1)) 5 3 10 0 None) \<le> 32768"
proof -
  have r: "tt_reachable 1 (store (new_search (TranspositionTable_init 1)) 5 3 10 0 None)"
    by (intro tt_store tt_new_search tt_init)
  have p: "(0::int) < 1" by simp
  show ?thesis using r table_within_capacity [OF p r] by simp
qed

section \<open>The position key\<close>

lemma and_low31: "(key::int) AND 0x7FFFFFFF = key mod 2 ^ 31"
proof -
  have "(0x7FFFFFFF::int) = mask 31" by (simp add: mask_eq_exp_minus_1)
  then have "key AND 0x7FFFFFFF = take_bit 31 key" by (simp only: take_bit_eq_mask)
  then show ?thesis by (simp only: take_bit_eq_mod)
qed

lemma fold_xor_start: "fold (\<lambda>x key. key XOR x) xs (k::int) = k XOR fold (\<lambda>x key. key XOR x) xs 0"
proof (induction xs arbitrary: k)
  case Nil
  show ?case by simp
next
  case (Cons x xs)
  have "fold (\<lambda>x key. key XOR x) (x # xs) k = (k XOR x) XOR fold (\<lambda>x key. key XOR x) xs 0"
    using Cons.IH [of "k XOR x"] by simp
  also have "\<dots> = k XOR (x XOR fold (\<lambda>x key. key XOR x) xs 0)"
    by (simp add: xor.assoc)
  also have "x XOR fold (\<lambda>x key. key XOR x) xs 0 = fold (\<lambda>x key. key XOR x) (x # xs) 0"
    using Cons.IH [of "0 XOR x"] by simp
  finally show ?case .
qed

lemma fold_cond_xor:
  "fold (\<lambda>c key. if P c then key XOR f c else key) cs (k::int)
     = fold (\<lambda>x key. key XOR x) (concat (map (\<lambda>c. if P c then [f c] else []) cs)) k"
  by (induction cs arbitrary: k) simp_all

lemma fold_fold_xor:
  "fold (\<lambda>r key. fold (\<lambda>x key. key XOR x) (g r) key) rs (k::int)
     = fold (\<lambda>x key. key XOR x) (concat (map g rs)) k"
  by (induction rs arbitrary: k) simp_all

lemma key_loop_eq:
  "fold (\<lambda>row key.
      fold (\<lambda>col key.
        let p = sq bd row col in
        if p \<noteq> ''--'' then key XOR hash (p, row, col) else key) range8 key) range8 0
   = xor_all (occupied_contributions hash bd)"
  unfolding Let_def fold_cond_xor fold_fold_xor xor_all_def occupied_contributions_def ..

text \<open>
  C5 (as amended). For every board and side to move, the key computed by
  \<^verbatim>\<open>_get_position_key\<close> is the XOR-combination of one contribution per occupied square
  and a one-bit contribution of the side to move, reduced to its low 31 bits (the mask
  is \<^verbatim>\<open>0x7FFFFFFF\<close>): it lies in the range from 0 up to, not including, \<open>2 ^ 31\<close>.
\<close>

theorem position_key_low_31_bits:
  "get_position_key hash bd is_white_turn
     = combined_fingerprint hash bd is_white_turn mod 2 ^ 31
   \<and> 0 \<le> get_position_key hash bd is_white_turn
   \<and> get_position_key hash bd is_white_turn < 2 ^ 31"
proof -
  have "get_position_key hash bd is_white_turn
          = combined_fingerprint hash bd is_white_turn AND 0x7FFFFFFF"
    unfolding get_position_key_def key_loop_eq combined_fingerprint_def
    by (simp add: Let_def)
  then have eq: "get_position_key hash bd is_white_turn
          = combined_fingerprint hash bd is_white_turn mod 2 ^ 31"
    by (simp only: and_low31)
  show ?thesis unfolding eq by simp
qed

text \<open>
  C5 as stated fails: with a hash that sets bit 32, the key of a lone king differs from
  the low 63 bits of the combined value.
\<close>

theorem position_key_not_63_bits:
  "get_position_key sample_hash lone_king_board False
     \<noteq> combined_fingerprint sample_hash lone_king_board False mod 2 ^ 63"
  by (simp add: get_position_key_def combined_fingerprint_def xor_all_def
       occupied_contributions_def range8_def sq_def lone_king_board_def empty_row_def
       sample_hash_def)

section \<open>The capture list of quiescence\<close>

lemma pawn_capture_sound:
  "m \<in> set (pawn_capture bd row col color direction dc) \<Longrightarrow> is_capture_of bd color m"
  by (auto simp: pawn_capture_def Let_def is_capture_of_def mk_move_def split: if_splits)

lemma get_pawn_moves_sound:
  "m \<in> set (get_pawn_moves bd row col color MoveType_CAPTURES) \<Longrightarrow> is_capture_of bd color m"
  by (auto simp: get_pawn_moves_def Let_def dest: pawn_capture_sound)

lemma slide_ray_sound:
  "m \<in> set (slide_ray bd row col color p MoveType_CAPTURES dr dc steps)
     \<Longrightarrow> is_capture_of bd color m"
proof (induction steps)
  case Nil
  then show ?case by simp
next
  case (Cons i rest)
  then show ?case
    by (auto simp: Let_def is_capture_of_def mk_move_def split: if_splits)
qed

lemma get_sliding_moves_sound:
  "m \<in> set (get_sliding_moves bd row col color directions MoveType_CAPTURES)
     \<Longrightarrow> is_capture_of bd color m"
  by (auto simp: get_sliding_moves_def simp del: slide_ray.simps dest: slide_ray_sound)

lemma step_move_sound:
  "m \<in> set (step_move bd row col color MoveType_CAPTURES d) \<Longrightarrow> is_capture_of bd color m"
  by (auto simp: step_move_def Let_def is_capture_of_def mk_move_def split: if_splits)

lemma get_knight_moves_sound:
  "m \<in> set (get_knight_moves bd row col color MoveType_CAPTURES) \<Longrightarrow> is_capture_of bd color m"
  unfolding get_knight_moves_def set_concat by (auto dest: step_move_sound)

lemma get_king_moves_sound:
  "m \<in> set (get_king_moves bd row col color MoveType_CAPTURES) \<Longrightarrow> is_capture_of bd color m"
  unfolding get_king_moves_def set_concat by (auto dest: step_move_sound)

lemma get_piece_moves_sound:
  "m \<in> set (get_piece_moves bd row col p MoveType_CAPTURES) \<Longrightarrow> is_capture_of bd (p ! 0) m"
  unfolding get_piece_moves_def Let_def
  by (auto split: if_splits
      dest: get_pawn_moves_sound get_sliding_moves_sound get_knight_moves_sound
            get_king_moves_sound)

lemma square_moves_sound:
  "m \<in> set (square_moves bd color MoveType_CAPTURES row col) \<Longrightarrow> is_capture_of bd color m"
  unfolding square_moves_def Let_def
  by (auto split: if_splits dest: get_piece_moves_sound)

lemma generate_moves_sound:
  "m \<in> set (generate_moves bd w MoveType_CAPTURES)
     \<Longrightarrow> is_capture_of bd (if w then CHR ''w'' else CHR ''b'') m"
  unfolding generate_moves_def Let_def set_concat
  by (auto dest: square_moves_sound)

lemma in_range8: "0 \<le> r \<Longrightarrow> r < 8 \<Longrightarrow> r \<in> set range8"
  unfolding range8_def by (simp, arith)

lemma square_moves_subset:
  assumes "is_valid_square row col"
  shows "set (square_moves bd (if w then CHR ''w'' else CHR ''b'') mt row col)
           \<subseteq> set (generate_moves bd w mt)"
proof -
  from assms have "row \<in> set range8" "col \<in> set range8"
    by (simp_all add: is_valid_square_def in_range8)
  then show ?thesis
    unfolding generate_moves_def Let_def set_concat by fastforce
qed

lemma pawn_capture_complete:
  assumes "is_valid_square (row + direction) (col + dc)"
    and "sq bd (row + direction) (col + dc) \<noteq> ''--''"
    and "sq bd (row + direction) (col + dc) ! 0 \<noteq> color"
  shows "pawn_capture bd row col color direction dc
           = [mk_move row col (row + direction) (col + dc) [color, CHR ''p'']
                (sq bd (row + direction) (col + dc))]"
  using assms by (simp add: pawn_capture_def Let_def)


lemma pawn_capture_in_generate_moves:
  assumes "is_valid_square row col"
    and "sq bd row col = [if w then CHR ''w'' else CHR ''b'', CHR ''p'']"
    and "dc = -1 \<or> dc = 1"
    and "is_valid_square (row + (if w then -1 else 1)) (col + dc)"
    and "sq bd (row + (if w then -1 else 1)) (col + dc) \<noteq> ''--''"
    and "sq bd (row + (if w then -1 else 1)) (col + dc) ! 0 \<noteq> (if w then CHR ''w'' else CHR ''b'')"
  shows "mk_move row col (row + (if w then -1 else 1)) (col + dc)
           [if w then CHR ''w'' else CHR ''b'', CHR ''p'']
           (sq bd (row + (if w then -1 else 1)) (col + dc))
         \<in> set (generate_moves bd w MoveType_CAPTURES)"
proof -
  let ?color = "if w then CHR ''w'' else CHR ''b''"
  let ?dir = "if w then -1 else 1 :: int"
  let ?m = "mk_move row col (row + ?dir) (col + dc) [?color, CHR ''p'']
              (sq bd (row + ?dir) (col + dc))"
  have dir: "(if ?color = CHR ''w'' then -1 else 1 :: int) = ?dir" by simp
  have "pawn_capture bd row col ?color ?dir dc = [?m]"
    using assms(4-6) by (rule pawn_capture_complete)
  with assms(3) have "?m \<in> set (get_pawn_moves bd row col ?color MoveType_CAPTURES)"
    unfolding get_pawn_moves_def Let_def dir by auto
  then have "?m \<in> set (get_piece_moves bd row col (sq bd row col) MoveType_CAPTURES)"
    unfolding get_piece_moves_def Let_def assms(2) by (simp add: lower_def)
  then have "?m \<in> set (square_moves bd ?color MoveType_CAPTURES row col)"
    unfolding square_moves_def Let_def using assms(2) by simp
  with square_moves_subset [OF assms(1), of bd w MoveType_CAPTURES]
  show ?thesis by blast
qed

text \<open>
  C4 (as amended). The move list searched by quiescence, \<^verbatim>\<open>generate_moves\<close> with
  \<^verbatim>\<open>MoveType.CAPTURES\<close> for the side to move, contains only capture moves: the
  destination of every move is a square of the board that holds a piece of the other
  side, and that piece is the move's \<^verbatim>\<open>captured\<close> field. The generator is given the
  board and the side to move and no en-passant target: a capture onto an empty square
  is never in the list, and no move of the list carries the flag \<^verbatim>\<open>"en_passant"\<close>.
\<close>

theorem quiescence_move_list_captures_only:
  "\<forall>m \<in> set (generate_moves bd w MoveType_CAPTURES).
      is_valid_square (to_row m) (to_col m)
      \<and> captured m = sq bd (to_row m) (to_col m)
      \<and> captured m \<noteq> ''--''
      \<and> captured m ! 0 \<noteq> (if w then CHR ''w'' else CHR ''b'')
      \<and> special_flag m \<noteq> ''en_passant''"
proof (intro conjI ballI)
  fix m assume "m \<in> set (generate_moves bd w MoveType_CAPTURES)"
  then have c: "is_capture_of bd (if w then CHR ''w'' else CHR ''b'') m"
    by (rule generate_moves_sound)
  from c show "is_valid_square (to_row m) (to_col m)" by (simp add: is_capture_of_def)
  from c show "captured m = sq bd (to_row m) (to_col m)" by (simp add: is_capture_of_def)
  from c show "captured m \<noteq> ''--''" unfolding is_capture_of_def by blast
  from c show "captured m ! 0 \<noteq> (if w then CHR ''w'' else CHR ''b'')"
    unfolding is_capture_of_def by blast
  from c show "special_flag m \<noteq> ''en_passant''" by (simp add: is_capture_of_def)
qed

theorem quiescence_move_list_captures_only_witness:
  "mk_move 4 4 3 3 ''wp'' ''bp'' \<in> set (generate_moves pawn_capture_board True MoveType_CAPTURES)
   \<and> captured (mk_move 4 4 3 3 ''wp'' ''bp'') = sq pawn_capture_board 3 3
   \<and> special_flag (mk_move 4 4 3 3 ''wp'' ''bp'') \<noteq> ''en_passant''"
proof -
  have sqs: "sq pawn_capture_board 4 4 = ''wp''" "sq pawn_capture_board 3 3 = ''bp''"
    by (simp_all add: sq_def pawn_capture_board_def empty_row_def)
  have mem: "mk_move 4 4 3 3 ''wp'' ''bp''
               \<in> set (generate_moves pawn_capture_board True MoveType_CAPTURES)"
    using pawn_capture_in_generate_moves [of 4 4 pawn_capture_board True "-1"]
    by (simp add: sqs is_valid_square_def)
  from mem quiescence_move_list_captures_only [of pawn_capture_board True, rule_format, OF mem]
  show ?thesis by (simp add: mk_move_def)
qed

text \<open>
  C4 as stated fails: after d7-d5 beside the white pawn on e5 the en-passant capture
  exd6 is available to White, and the list of captures is empty.
\<close>

theorem quiescence_en_passant_capture_absent:
  "generate_moves en_passant_board True MoveType_CAPTURES = []"
  by (simp add: generate_moves_def range8_def square_moves_def sq_def en_passant_board_def
      empty_row_def get_piece_moves_def lower_def get_pawn_moves_def pawn_capture_def
      is_valid_square_def get_king_moves_def step_move_def mk_move_def)

text \<open>
  With a white pawn on a7 and a black rook on b8 the list is the capture a7xb8, its
  special flag empty.
\<close>

lemma last_rank_capture_in_list:
  "generate_moves promo_capture_board True MoveType_CAPTURES
     = [\<lparr>from_row = 1, from_col = 0, to_row = 0, to_col = 1,
         piece = ''wp'', captured = ''bR'', special_flag = []\<rparr>]"
  by (simp add: generate_moves_def range8_def square_moves_def sq_def promo_capture_board_def
      empty_row_def get_piece_moves_def lower_def get_pawn_moves_def pawn_capture_def
      is_valid_square_def get_king_moves_def step_move_def mk_move_def)

section \<open>The bound stored at the end of an \<^verbatim>\<open>_alpha_beta\<close> node\<close>

lemma tt_flag_is_spec_bound_from_minus_infinity:
  "tt_flag best_score beta = spec_bound (-999999) beta best_score"
  by (simp add: tt_flag_def spec_bound_def)

text \<open>
  C3. At a node with \<open>alpha = 100\<close> and \<open>beta = 200\<close> whose two moves score 50 and 30,
  \<^verbatim>\<open>best_score\<close> is 50, not above the node's initial \<open>alpha\<close>: the bound of the claim
  is \<^verbatim>\<open>UPPER_BOUND\<close>. The entry that \<^verbatim>\<open>_alpha_beta\<close> stores carries \<^verbatim>\<open>EXACT\<close>,
  because the stored flag compares \<^verbatim>\<open>best_score\<close> with \<open>-999999\<close> and not with the
  initial \<open>alpha\<close>. The stored move is the first move of the ordered list.
\<close>

theorem alpha_beta_fail_low_stored_exact:
  "fmlookup (table (fst (alpha_beta_finish (TranspositionTable_init 1) 5 2 100 200
       [sample_move_a, sample_move_b] [50, 30]))) 5
     = Some \<lparr>score = 50, depth = 2, flag = EXACT, best_move = Some sample_move_a, age = 0\<rparr>
   \<and> spec_bound 100 200 50 = UPPER_BOUND
   \<and> EXACT \<noteq> UPPER_BOUND"
  by (simp add: alpha_beta_finish_def tt_flag_def spec_bound_def store_def
      TranspositionTable_init_def len_table_def fcard_fempty EXACT_def UPPER_BOUND_def
      LOWER_BOUND_def)

section \<open>The game state: legality, make and undo, end-of-game flags\<close>

lemma option_bind_weak_cong: "x = y \<Longrightarrow> Option.bind x f = Option.bind y f"
  by simp

lemma map_option_weak_cong: "x = y \<Longrightarrow> map_option f x = map_option f y"
  by simp

lemmas gs_eval = get_valid_moves_def check_for_pins_and_checks_def range8_def directions8_def
  steps7_def knight_moves_def in_grid_def sq_def can_attack_def knight_check_def
  get_all_possible_moves_def squares64_def moves_at_def get_pawn_move_def find_pin_def pin_dir_def
  py_sq_def py_get_def py_norm_def cell_def Move_init_def get_rook_move_def get_bishop_move_def
  get_queen_move_def gs_sliding_moves_def get_knight_move_def get_king_move_def king_step_def
  king_offsets_def get_castle_moves_def square_under_attack_def get_kingside_castle_moves_def
  get_queenside_castle_moves_def drop_unhelpful_def move_eq_def GameState_init_def
  castle_board_def castle_state_def en_passant_board_def en_passant_state_def mate_board_def
  mate_state_def empty_row_def Let_def

lemmas mv_eval = make_move_def handle_king_move_def handle_en_passant_def
  handle_pawn_promotion_def handle_castling_def update_castle_rights_def py_set_def
  undo_move_def undo_king_move_def undo_en_passant_def undo_castling_def

text \<open>
  C1. With the white king on e1, the rook on h1, the right to castle and a black pawn on
  h2, \<^verbatim>\<open>get_valid_moves\<close> returns nine moves, the last of them castling on the king's
  side, and leaves the state as it was. After \<^verbatim>\<open>make_move\<close> of that move the white king
  stands on g1 (row 7, column 6), diagonally in front of the black pawn on h2 (row 6,
  column 7), and the scan \<^verbatim>\<open>check_for_pins_and_checks\<close> for White on the new board
  reports a check: the move leaves the mover's king attacked.
\<close>

theorem castling_into_pawn_attack:
  "get_valid_moves castle_state
     = Some (map (\<lambda>(a, b). Move_init a b castle_board False False False)
               [((7, 4), (6, 3)), ((7, 4), (6, 4)), ((7, 4), (6, 5)), ((7, 4), (7, 3)),
                ((7, 4), (7, 5)), ((7, 7), (6, 7)), ((7, 7), (7, 6)), ((7, 7), (7, 5))]
             @ [Move_init (7, 4) (7, 6) castle_board False False True],
             castle_state)
   \<and> (case make_move castle_state (Move_init (7, 4) (7, 6) castle_board False False True) of
         None \<Rightarrow> False
       | Some s \<Rightarrow>
           sq (board s) 7 6 = ''wK'' \<and> sq (board s) 7 5 = ''wR'' \<and> sq (board s) 6 7 = ''bp''
           \<and> white_king_location s = (7, 6)
           \<and> check_for_pins_and_checks (board s) True
                (white_king_location s) (black_king_location s)
              = (True, [], [(6, 7, -1, 1)]))"
proof (intro conjI)
  show "get_valid_moves castle_state
     = Some (map (\<lambda>(a, b). Move_init a b castle_board False False False)
               [((7, 4), (6, 3)), ((7, 4), (6, 4)), ((7, 4), (6, 5)), ((7, 4), (7, 3)),
                ((7, 4), (7, 5)), ((7, 7), (6, 7)), ((7, 7), (7, 6)), ((7, 7), (7, 5))]
             @ [Move_init (7, 4) (7, 6) castle_board False False True],
             castle_state)"
    by (simp add: gs_eval cong: let_weak_cong option_bind_weak_cong map_option_weak_cong)
  show "case make_move castle_state (Move_init (7, 4) (7, 6) castle_board False False True) of
         None \<Rightarrow> False
       | Some s \<Rightarrow>
           sq (board s) 7 6 = ''wK'' \<and> sq (board s) 7 5 = ''wR'' \<and> sq (board s) 6 7 = ''bp''
           \<and> white_king_location s = (7, 6)
           \<and> check_for_pins_and_checks (board s) True
                (white_king_location s) (black_king_location s)
              = (True, [], [(6, 7, -1, 1)])"
    by (simp add: gs_eval mv_eval
        cong: let_weak_cong option_bind_weak_cong map_option_weak_cong)
qed

text \<open>
  C2. After Black's d7-d5 beside the white pawn on e5, \<^verbatim>\<open>get_valid_moves\<close> returns
  seven moves, the second of them the en-passant capture exd6, and leaves the state as
  it was. \<^verbatim>\<open>make_move\<close> of that capture followed by \<^verbatim>\<open>undo_move\<close> restores the side
  to move, the en-passant target, the castling rights and the king locations, but not
  the board: the square d6 (row 2, column 3), empty before, holds a black pawn, beside
  the restored black pawn on d5.
\<close>

theorem en_passant_undo_leaves_pawn:
  "get_valid_moves en_passant_state
     = Some ([Move_init (3, 4) (2, 4) en_passant_board False False False,
              Move_init (3, 4) (2, 3) en_passant_board True False False,
              Move_init (7, 4) (6, 3) en_passant_board False False False,
              Move_init (7, 4) (6, 4) en_passant_board False False False,
              Move_init (7, 4) (6, 5) en_passant_board False False False,
              Move_init (7, 4) (7, 3) en_passant_board False False False,
              Move_init (7, 4) (7, 5) en_passant_board False False False],
             en_passant_state)
   \<and> (case make_move en_passant_state
              (Move_init (3, 4) (2, 3) en_passant_board True False False) of
         None \<Rightarrow> False
       | Some s \<Rightarrow>
          (case undo_move s of
             None \<Rightarrow> False
           | Some (r, s') \<Rightarrow>
               r \<and> board s' \<noteq> board en_passant_state
               \<and> sq (board en_passant_state) 2 3 = ''--'' \<and> sq (board s') 2 3 = ''bp''
               \<and> sq (board s') 3 3 = ''bp'' \<and> sq (board s') 3 4 = ''wp''
               \<and> white_to_move s' = white_to_move en_passant_state
               \<and> enPassant_possible s' = enPassant_possible en_passant_state
               \<and> current_castling_rights s' = current_castling_rights en_passant_state
               \<and> white_king_location s' = white_king_location en_passant_state
               \<and> black_king_location s' = black_king_location en_passant_state))"
proof (intro conjI)
  show "get_valid_moves en_passant_state
     = Some ([Move_init (3, 4) (2, 4) en_passant_board False False False,
              Move_init (3, 4) (2, 3) en_passant_board True False False,
              Move_init (7, 4) (6, 3) en_passant_board False False False,
              Move_init (7, 4) (6, 4) en_passant_board False False False,
              Move_init (7, 4) (6, 5) en_passant_board False False False,
              Move_init (7, 4) (7, 3) en_passant_board False False False,
              Move_init (7, 4) (7, 5) en_passant_board False False False],
             en_passant_state)"
    by (simp add: gs_eval cong: let_weak_cong option_bind_weak_cong map_option_weak_cong)
  show "case make_move en_passant_state
              (Move_init (3, 4) (2, 3) en_passant_board True False False) of
         None \<Rightarrow> False
       | Some s \<Rightarrow>
          (case undo_move s of
             None \<Rightarrow> False
           | Some (r, s') \<Rightarrow>
               r \<and> board s' \<noteq> board en_passant_state
               \<and> sq (board en_passant_state) 2 3 = ''--'' \<and> sq (board s') 2 3 = ''bp''
               \<and> sq (board s') 3 3 = ''bp'' \<and> sq (board s') 3 4 = ''wp''
               \<and> white_to_move s' = white_to_move en_passant_state
               \<and> enPassant_possible s' = enPassant_possible en_passant_state
               \<and> current_castling_rights s' = current_castling_rights en_passant_state
               \<and> white_king_location s' = white_king_location en_passant_state
               \<and> black_king_location s' = black_king_location en_passant_state)"
    by (simp add: gs_eval mv_eval
        cong: let_weak_cong option_bind_weak_cong map_option_weak_cong)
qed





end
